theory Spec2Isabelle
  imports Complex_Main "HOL-Library.Sublist"
begin

section \<open>Error Lifecycle Engine: event bus, log monitor, fix orchestrator\<close>

text \<open>
  A shallow embedding of \<^verbatim>\<open>backend/app/services/event_bus.py\<close>,
  \<^verbatim>\<open>backend/app/core/config.py\<close> (RetryConfig),
  \<^verbatim>\<open>backend/app/models/error.py\<close>,
  \<^verbatim>\<open>backend/app/services/error_fixer.py\<close> and
  \<^verbatim>\<open>backend/app/services/error_detector.py\<close>.

  Conventions. A \<^verbatim>\<open>datetime\<close> is an \<open>int\<close>: microseconds since the epoch.
  Every call of \<^verbatim>\<open>datetime.utcnow()\<close> is an explicit argument of the operation that
  makes it. A coroutine is modelled by the function from the state before it to the state
  after it; where the source awaits a collaborator (the agent subprocess, the deployment
  controller, the file system) the collaborator's answer is an explicit argument.
\<close>

subsection \<open>Python values and exceptions\<close>

text \<open>
  The exceptions the model names. \<open>FloatNotExact\<close> is not an exception of the program:
  it is the model's answer where a binary64 operation does not return its exact
  mathematical result (it rounds or overflows). The program goes on with the rounded
  value there; the model does not follow it, and no theorem speaks of such a computation.
\<close>

datatype py_error =
    ZeroDivisionError
  | NoResultFound
  | TimeoutError
  | MissingGreenlet
  | PyException string
  | FloatNotExact

datatype pyval =
    PNone
  | PStr string
  | PUuid nat
  | PInt int
  | PBool bool
  | PStrList "string list"

text \<open>\<^verbatim>\<open>xs[i:]\<close> for a Python list and any integer \<open>i\<close>.\<close>

definition py_slice_from :: "int \<Rightarrow> 'a list \<Rightarrow> 'a list" where
  "py_slice_from i xs =
     (let n = int (length xs);
          j = (if i < 0 then max 0 (n + i) else min i n)
      in drop (nat j) xs)"

text \<open>\<^verbatim>\<open>xs[:k]\<close> for a non-negative constant \<open>k\<close>.\<close>

definition py_prefix :: "nat \<Rightarrow> 'a list \<Rightarrow> 'a list" where
  "py_prefix k xs = take k xs"

subsection \<open>Event bus (event\_bus.py)\<close>

datatype EventType =
    STATUS_CHANGE | HEARTBEAT
  | REPO_CHANGE_DETECTED | REPO_POLL_ERROR
  | UPDATE_STARTED | UPDATE_COMPLETED | UPDATE_FAILED | UPDATE_ROLLED_BACK
  | ERROR_DETECTED | ERROR_RESOLVED | ERROR_IGNORED
  | FIX_STARTED | FIX_PROGRESS | FIX_COMPLETED | FIX_FAILED | FIX_ESCALATED

record Event =
  etype :: EventType
  payload :: "(string \<times> pyval) list"
  timestamp :: int
  source :: string

text \<open>
  A handler is a coroutine supplied by a subscriber. The bus calls it and swallows any
  exception it raises, so for the bus a handler is its identity (a number); each call is
  recorded in \<open>delivered\<close>. The field \<open>published\<close> is an observation log that the source
  does not have: every event passed to \<^verbatim>\<open>publish\<close>, in order, never evicted.
\<close>

type_synonym EventHandler = nat

record EventBus =
  subscribers :: "(EventType \<times> EventHandler list) list"
  global_subscribers :: "EventHandler list"
  history :: "Event list"
  history_size :: int
  delivered :: "(EventHandler \<times> Event) list"
  published :: "Event list"

definition EventBus_init :: "int \<Rightarrow> EventBus" where
  "EventBus_init hsize =
     \<lparr> subscribers = [], global_subscribers = [], history = [],
       history_size = hsize, delivered = [], published = [] \<rparr>"

definition default_history_size :: int where
  "default_history_size = 100"

definition subscribe :: "EventType \<Rightarrow> EventHandler \<Rightarrow> EventBus \<Rightarrow> EventBus" where
  "subscribe t h bus =
     (case map_of (subscribers bus) t of
        None \<Rightarrow> bus\<lparr>subscribers := subscribers bus @ [(t, [h])]\<rparr>
      | Some hs \<Rightarrow>
          bus\<lparr>subscribers :=
                 map (\<lambda>(t', hs'). if t' = t then (t', hs' @ [h]) else (t', hs'))
                     (subscribers bus)\<rparr>)"

definition subscribe_all :: "EventHandler \<Rightarrow> EventBus \<Rightarrow> EventBus" where
  "subscribe_all h bus = bus\<lparr>global_subscribers := global_subscribers bus @ [h]\<rparr>"

definition unsubscribe :: "EventType \<Rightarrow> EventHandler \<Rightarrow> EventBus \<Rightarrow> EventBus" where
  "unsubscribe t h bus =
     bus\<lparr>subscribers :=
            map (\<lambda>(t', hs'). if t' = t then (t', remove1 h hs') else (t', hs'))
                (subscribers bus)\<rparr>"

text \<open>
  \<^verbatim>\<open>publish\<close>: append to the history, pop the head once when the bound is exceeded,
  then call the global handlers followed by the handlers of the event's type.
\<close>

definition publish :: "Event \<Rightarrow> EventBus \<Rightarrow> EventBus" where
  "publish event bus =
     (let h1 = history bus @ [event];
          h2 = (if int (length h1) > history_size bus then tl h1 else h1);
          handlers = global_subscribers bus @
                     (case map_of (subscribers bus) (etype event) of
                        None \<Rightarrow> [] | Some hs \<Rightarrow> hs)
      in bus\<lparr> history := h2,
               delivered := delivered bus @ map (\<lambda>h. (h, event)) handlers,
               published := published bus @ [event] \<rparr>)"

definition emit :: "EventType \<Rightarrow> (string \<times> pyval) list \<Rightarrow> string \<Rightarrow> int \<Rightarrow> EventBus \<Rightarrow> EventBus" where
  "emit t pl src now bus =
     publish \<lparr> etype = t, payload = pl, timestamp = now, source = src \<rparr> bus"

definition get_history :: "EventType option \<Rightarrow> int \<Rightarrow> EventBus \<Rightarrow> Event list" where
  "get_history event_type limit bus =
     (case event_type of
        Some t \<Rightarrow> py_slice_from (- limit) (filter (\<lambda>e. etype e = t) (history bus))
      | None \<Rightarrow> py_slice_from (- limit) (history bus))"

text \<open>A sequence of publish operations on a bus, oldest first.\<close>

definition publish_all :: "Event list \<Rightarrow> EventBus \<Rightarrow> EventBus" where
  "publish_all evs bus = foldl (\<lambda>b e. publish e b) bus evs"

text \<open>The \<open>i\<close>-th event of a numbered test sequence.\<close>

definition numbered_event :: "nat \<Rightarrow> Event" where
  "numbered_event i =
     \<lparr> etype = HEARTBEAT, payload = [(''n'', PInt (int i))],
       timestamp = int i, source = ''test'' \<rparr>"

subsection \<open>Strings\<close>

text \<open>Strings are byte strings; the source's text is taken to be ASCII.\<close>

definition newline :: char where
  "newline = CHR 0x0A"

text \<open>\<^verbatim>\<open>needle in haystack\<close>.\<close>

fun contains :: "string \<Rightarrow> string \<Rightarrow> bool" where
  "contains needle [] = (needle = [])"
| "contains needle (c # cs) = (prefix needle (c # cs) \<or> contains needle cs)"

text \<open>\<^verbatim>\<open>s.split(sep)\<close> for a separator of one character.\<close>

fun split_on :: "char \<Rightarrow> string \<Rightarrow> string list" where
  "split_on sep [] = [[]]"
| "split_on sep (c # cs) =
     (if c = sep then [] # split_on sep cs
      else (case split_on sep cs of
              [] \<Rightarrow> [[c]]
            | l # ls \<Rightarrow> (c # l) # ls))"

text \<open>\<^verbatim>\<open>sep.join(xs)\<close>.\<close>

fun join :: "string \<Rightarrow> string list \<Rightarrow> string" where
  "join sep [] = []"
| "join sep [x] = x"
| "join sep (x # y # ys) = x @ sep @ join sep (y # ys)"


subsection \<open>Error and FixAttempt (models/error.py)\<close>

datatype ErrorSeverity = CRITICAL | HIGH | MEDIUM | LOW

datatype ErrorCategory = PYTHON | DATABASE | ODOO | ASSET | DEPENDENCY

datatype ErrorStatus = DETECTED | QUEUED | FIXING | RESOLVED | FAILED | IGNORED

text \<open>
  \<^verbatim>\<open>FixAttemptStatus.FAILED\<close> is written \<open>ATTEMPT_FAILED\<close>, since \<open>FAILED\<close> is the
  constructor of \<open>ErrorStatus\<close>.
\<close>

datatype FixAttemptStatus = IN_PROGRESS | SUCCESS | ATTEMPT_FAILED | TIMEOUT

text \<open>
  The primary key of an Error is the string of \<^verbatim>\<open>uuid.uuid4()\<close>. The model numbers the
  calls of \<^verbatim>\<open>uuid4\<close>: the key is the number of the call that made it, so distinct calls
  give distinct keys.
\<close>

type_synonym uuid = nat

text \<open>The column \<^verbatim>\<open>module_name\<close> is the field \<open>module_name'\<close> (the plain name is reserved).\<close>

record Error =
  eid :: uuid
  error_type :: string
  severity :: ErrorSeverity
  category :: ErrorCategory
  message :: string
  stack_trace :: "string option"
  module_name' :: "string option"
  file_path :: "string option"
  line_number :: "int option"
  context_before :: "string list option"
  context_after :: "string list option"
  raw_log :: "string option"
  status :: ErrorStatus
  auto_fixable :: bool
  detected_at :: int
  resolved_at :: "int option"
  ignored_at :: "int option"
  ignored_by :: "string option"

record FixAttempt =
  fid :: nat
  error_id :: uuid
  attempt_number :: int
  fa_status :: FixAttemptStatus
  claude_prompt :: "string option"
  claude_response :: "string option"
  files_modified :: "string list option"
  fix_diff :: "string option"
  error_after_fix :: "string option"
  execution_time_seconds :: "rat option"
  started_at :: int
  completed_at :: "int option"

text \<open>The two tables, rows in insertion order.\<close>

record Database =
  errors :: "Error list"
  fix_attempts :: "FixAttempt list"

text \<open>\<^verbatim>\<open>select(Error).where(Error.id == i)\<close>, \<^verbatim>\<open>scalar_one_or_none()\<close>.\<close>

definition get_error :: "uuid \<Rightarrow> Database \<Rightarrow> Error option" where
  "get_error i d = find (\<lambda>e. eid e = i) (errors d)"

text \<open>A commit that writes the changed attributes of the row with key \<open>i\<close>.\<close>

definition update_error :: "uuid \<Rightarrow> (Error \<Rightarrow> Error) \<Rightarrow> Database \<Rightarrow> Database" where
  "update_error i f d = d\<lparr>errors := map (\<lambda>e. if eid e = i then f e else e) (errors d)\<rparr>"

definition update_attempt :: "nat \<Rightarrow> (FixAttempt \<Rightarrow> FixAttempt) \<Rightarrow> Database \<Rightarrow> Database" where
  "update_attempt i f d =
     d\<lparr>fix_attempts := map (\<lambda>a. if fid a = i then f a else a) (fix_attempts d)\<rparr>"

text \<open>
  The relationship \<^verbatim>\<open>Error.fix_attempts\<close>: the attempts of the error, ordered by
  \<^verbatim>\<open>attempt_number\<close>.
\<close>

definition fix_attempts_of :: "uuid \<Rightarrow> Database \<Rightarrow> FixAttempt list" where
  "fix_attempts_of i d =
     sort_key attempt_number (filter (\<lambda>a. error_id a = i) (fix_attempts d))"

text \<open>The autoincremented primary key of a new FixAttempt row.\<close>

definition next_fid :: "Database \<Rightarrow> nat" where
  "next_fid d = Suc (foldr max (map fid (fix_attempts d)) 0)"

text \<open>
  \<^verbatim>\<open>select(Error).where(status == st, auto_fixable == True).order_by(detected_at).limit(1)\<close>.
  Rows with equal \<^verbatim>\<open>detected_at\<close> are taken in insertion order.
\<close>

definition first_auto_fixable :: "ErrorStatus \<Rightarrow> Database \<Rightarrow> Error option" where
  "first_auto_fixable st d =
     (case sort_key detected_at (filter (\<lambda>e. status e = st \<and> auto_fixable e) (errors d)) of
        [] \<Rightarrow> None
      | e # _ \<Rightarrow> Some e)"

subsection \<open>The services' state\<close>

text \<open>
  One record holds the database, the event bus and the attributes of the two services:
  \<open>fixer_running\<close> and \<open>current_fix\<close> are \<^verbatim>\<open>ErrorFixerService._running\<close> and
  \<^verbatim>\<open>._current_fix\<close>; \<open>detector_running\<close>, \<open>last_position\<close>, \<open>context_buffer\<close> and
  \<open>context_size\<close> are the attributes of \<^verbatim>\<open>ErrorDetectorService\<close>. \<open>fixing\<close>
  holds the local variables \<^verbatim>\<open>error\<close> and \<^verbatim>\<open>fix_attempt\<close> of \<^verbatim>\<open>_process_error\<close>
  while that coroutine is suspended in its \<^verbatim>\<open>try\<close> block, and is \<open>None\<close> otherwise. \<open>uuid_next\<close> counts the calls of
  \<^verbatim>\<open>uuid4\<close>.
\<close>

record World =
  db :: Database
  bus :: EventBus
  fixer_running :: bool
  current_fix :: "uuid option"
  fixing :: "(Error \<times> FixAttempt) option"
  detector_running :: bool
  last_position :: nat
  context_buffer :: "string list"
  context_size :: nat
  uuid_next :: nat

definition World_init :: World where
  "World_init =
     \<lparr> db = \<lparr> errors = [], fix_attempts = [] \<rparr>,
       bus = EventBus_init default_history_size,
       fixer_running = False, current_fix = None, fixing = None,
       detector_running = False, last_position = 0, context_buffer = [],
       context_size = 10, uuid_next = 0 \<rparr>"


subsection \<open>Retry configuration (config.py)\<close>

text \<open>
  \<^verbatim>\<open>multiplier\<close> is a Python float, a binary64 number; the model holds its exact value
  as a rational. The model follows a float computation only as long as it is exact: a
  finite binary64 number is \<open>m \<times> 2^e\<close> with \<open>|m| < 2^53\<close> and \<open>-1074 \<le> e \<le> 971\<close>, and an
  operation whose exact result is such a number returns it (for \<^verbatim>\<open>**\<close> this is taken of
  the platform's \<^verbatim>\<open>pow\<close>). Everywhere else the answer is \<open>FloatNotExact\<close>.
\<close>

record RetryConfig =
  max_attempts :: int
  base_delay_seconds :: int
  multiplier :: rat
  max_delay_seconds :: int

definition RetryConfig_default :: RetryConfig where
  "RetryConfig_default =
     \<lparr> max_attempts = 5, base_delay_seconds = 60, multiplier = 2, max_delay_seconds = 960 \<rparr>"

definition binary64 :: "rat \<Rightarrow> bool" where
  "binary64 x \<longleftrightarrow>
     (\<exists>e\<in>{-1074..971}.
        of_int \<lfloor>x / 2 powi e\<rfloor> = x / 2 powi e \<and> \<bar>x / 2 powi e\<bar> < 2 ^ 53)"

text \<open>\<^verbatim>\<open>x ** e\<close> for a float \<open>x\<close> and an int \<open>e\<close>, which is converted to a float first.\<close>

definition float_pow :: "rat \<Rightarrow> int \<Rightarrow> py_error + rat" where
  "float_pow x e =
     (if \<not> binary64 x \<or> \<not> binary64 (of_int e) then Inl FloatNotExact
      else if e = 0 then Inr 1
      else if e < 0 \<and> x = 0 then Inl ZeroDivisionError
      else (let p = (if 0 \<le> e then x ^ nat e else 1 / x ^ nat (- e))
            in if binary64 p then Inr p else Inl FloatNotExact))"

text \<open>The conversion of an int to a float, and the product of two floats.\<close>

definition float_of_int :: "int \<Rightarrow> py_error + rat" where
  "float_of_int n = (if binary64 (of_int n) then Inr (of_int n) else Inl FloatNotExact)"

definition float_mul :: "rat \<Rightarrow> rat \<Rightarrow> py_error + rat" where
  "float_mul x y = (if binary64 (x * y) then Inr (x * y) else Inl FloatNotExact)"

text \<open>\<^verbatim>\<open>int(x)\<close> for a float \<open>x\<close>: truncation toward zero.\<close>

definition py_int :: "rat \<Rightarrow> int" where
  "py_int x = (if 0 \<le> x then \<lfloor>x\<rfloor> else \<lceil>x\<rceil>)"

text \<open>
  \<^verbatim>\<open>get_delay\<close>: the power, then the product with the base delay (an int, converted to
  a float), then \<^verbatim>\<open>int\<close> and \<^verbatim>\<open>min\<close>.
\<close>

definition get_delay :: "RetryConfig \<Rightarrow> int \<Rightarrow> py_error + int" where
  "get_delay cfg attempt =
     (case float_pow (multiplier cfg) (attempt - 1) of
        Inl err \<Rightarrow> Inl err
      | Inr p \<Rightarrow>
          (case float_of_int (base_delay_seconds cfg) of
             Inl err \<Rightarrow> Inl err
           | Inr b \<Rightarrow>
               (case float_mul b p of
                  Inl err \<Rightarrow> Inl err
                | Inr delay \<Rightarrow> Inr (min (py_int delay) (max_delay_seconds cfg)))))"

text \<open>
  The float computation of \<open>get_delay\<close> is exact for an attempt number: the multiplier,
  the exponent, the power, the base delay and the product are binary64 numbers.
\<close>

definition delay_exact :: "RetryConfig \<Rightarrow> int \<Rightarrow> bool" where
  "delay_exact cfg attempt \<longleftrightarrow>
     binary64 (multiplier cfg) \<and> binary64 (of_int (attempt - 1)) \<and>
     binary64 (multiplier cfg ^ nat (attempt - 1)) \<and>
     binary64 (of_int (base_delay_seconds cfg)) \<and>
     binary64 (of_int (base_delay_seconds cfg) * multiplier cfg ^ nat (attempt - 1))"

text \<open>The settings the services read: \<^verbatim>\<open>settings.retry\<close> and \<^verbatim>\<open>settings.claude.enabled\<close>.\<close>

record Settings =
  retry :: RetryConfig
  claude_enabled :: bool

definition Settings_default :: Settings where
  "Settings_default = \<lparr> retry = RetryConfig_default, claude_enabled = True \<rparr>"

subsection \<open>Fix orchestrator (error\_fixer.py)\<close>






definition get_next_error :: "World \<Rightarrow> Error option \<times> World" where
  "get_next_error w =
     (case first_auto_fixable QUEUED (db w) of
        Some error \<Rightarrow> (Some error, w)
      | None \<Rightarrow>
          (case first_auto_fixable DETECTED (db w) of
             None \<Rightarrow> (None, w)
           | Some error \<Rightarrow>
               (Some (error\<lparr>status := QUEUED\<rparr>),
                w\<lparr>db := update_error (eid error) (\<lambda>e. e\<lparr>status := QUEUED\<rparr>) (db w)\<rparr>)))"









text \<open>
  \<^verbatim>\<open>FixAttempt(error_id=i, attempt_number=n, status=IN_PROGRESS, started_at=now)\<close>,
  inserted with primary key \<open>k\<close>; the other columns are null.
\<close>

definition FixAttempt_new :: "nat \<Rightarrow> uuid \<Rightarrow> int \<Rightarrow> int \<Rightarrow> FixAttempt" where
  "FixAttempt_new k i n now =
     \<lparr> fid = k, error_id = i, attempt_number = n, fa_status = IN_PROGRESS,
       claude_prompt = None, claude_response = None, files_modified = None,
       fix_diff = None, error_after_fix = None, execution_time_seconds = None,
       started_at = now, completed_at = None \<rparr>"

text \<open>
  The read of \<^verbatim>\<open>error.fix_attempts\<close> in \<^verbatim>\<open>_process_error\<close>. The relationship is declared
  with the default lazy loading (models/error.py), the row was just loaded by an
  \<^verbatim>\<open>AsyncSession\<close> (core/database.py) with no eager-load option, and the attribute is
  read without \<^verbatim>\<open>await\<close>: the implicit load is refused and SQLAlchemy raises
  \<^verbatim>\<open>MissingGreenlet\<close>, an \<^verbatim>\<open>Exception\<close>, whatever the rows of the table are. The rows
  that the relationship stands for are \<open>fix_attempts_of\<close>.
\<close>

definition read_fix_attempts :: "uuid \<Rightarrow> Database \<Rightarrow> py_error + FixAttempt list" where
  "read_fix_attempts i d = Inl MissingGreenlet"

text \<open>
  \<^verbatim>\<open>_process_error\<close> up to the \<^verbatim>\<open>try\<close> block: the read of the attempts, the escalation
  check, the backoff check, the new FixAttempt and the \<^verbatim>\<open>FIX_STARTED\<close> event. An
  exception leaves the store as it was (the session is rolled back).
\<close>

datatype begin_result = Escalated | NotReady | Started Error FixAttempt

definition backoff_pending :: "Settings \<Rightarrow> int \<Rightarrow> FixAttempt list \<Rightarrow> py_error + bool" where
  "backoff_pending cfg now atts =
     (if int (length atts) > 0
      then (case get_delay (retry cfg) (int (length atts)) of
              Inl ex \<Rightarrow> Inl ex
            | Inr delay \<Rightarrow>
                (case completed_at (last atts) of
                   None \<Rightarrow> Inr False
                 | Some c \<Rightarrow> Inr (now - c < delay * 1000000)))
      else Inr False)"

definition process_error_begin ::
  "Settings \<Rightarrow> int \<Rightarrow> uuid \<Rightarrow> World \<Rightarrow> py_error + (begin_result \<times> World)" where
  "process_error_begin cfg now i w =
     (case get_error i (db w) of
        None \<Rightarrow> Inl NoResultFound
      | Some error \<Rightarrow>
          (case read_fix_attempts i (db w) of
             Inl ex \<Rightarrow> Inl ex
           | Inr atts \<Rightarrow>
          (let attempt_count = int (length atts)
           in if attempt_count \<ge> max_attempts (retry cfg)
              then Inr (Escalated,
                        w\<lparr> db := update_error i (\<lambda>e. e\<lparr>status := FAILED\<rparr>) (db w),
                           bus := emit FIX_ESCALATED
                                    [(''error_id'', PUuid i),
                                     (''error_type'', PStr (error_type error)),
                                     (''attempts'', PInt attempt_count)]
                                    ''error_fixer'' now (bus w) \<rparr>)
              else (case backoff_pending cfg now atts of
                      Inl ex \<Rightarrow> Inl ex
                    | Inr True \<Rightarrow> Inr (NotReady, w)
                    | Inr False \<Rightarrow>
                        (let error1 = error\<lparr>status := FIXING\<rparr>;
                             fa = FixAttempt_new (next_fid (db w)) i (attempt_count + 1) now;
                             d1 = update_error i (\<lambda>e. e\<lparr>status := FIXING\<rparr>) (db w)
                         in Inr (Started error1 fa,
                                 w\<lparr> db := d1\<lparr>fix_attempts := fix_attempts d1 @ [fa]\<rparr>,
                                    current_fix := Some i,
                                    fixing := Some (error1, fa),
                                    bus := emit FIX_STARTED
                                             [(''error_id'', PUuid i),
                                              (''attempt'', PInt (attempt_number fa)),
                                              (''max_attempts'', PInt (max_attempts (retry cfg)))]
                                             ''error_fixer'' now (bus w) \<rparr>))))))"



definition ignore_error :: "uuid \<Rightarrow> string \<Rightarrow> int \<Rightarrow> World \<Rightarrow> bool \<times> World" where
  "ignore_error i ignored_by_user now w =
     (case get_error i (db w) of
        None \<Rightarrow> (False, w)
      | Some error \<Rightarrow>
          (True,
           w\<lparr> db := update_error i
                      (\<lambda>e. e\<lparr> status := IGNORED, ignored_at := Some now,
                              ignored_by := Some ignored_by_user \<rparr>)
                      (db w),
              bus := emit ERROR_IGNORED
                       [(''error_id'', PUuid i), (''ignored_by'', PStr ignored_by_user)]
                       ''error_fixer'' now (bus w) \<rparr>))"

text \<open>
  One iteration of \<^verbatim>\<open>_fixing_loop\<close>, split where \<^verbatim>\<open>_process_error\<close> awaits the agent.
  \<open>fixing_loop_poll\<close> is the iteration up to that point: with no error to fix the loop
  sleeps; an exception of \<^verbatim>\<open>_process_error\<close> is logged and its session rolled back.
  \<open>fixing_loop_finish\<close> is the rest of the iteration.
\<close>

definition fixing_loop_poll :: "Settings \<Rightarrow> int \<Rightarrow> World \<Rightarrow> World" where
  "fixing_loop_poll cfg now w =
     (case get_next_error w of
        (None, w1) \<Rightarrow> w1
      | (Some error, w1) \<Rightarrow>
          (case process_error_begin cfg now (eid error) w1 of
             Inl ex \<Rightarrow> w1
           | Inr (r, w2) \<Rightarrow> w2))"


text \<open>
  The delay as the specification words it, to compare with \<open>get_delay\<close>:
  \<open>min (base_delay \<times> multiplier^(attempt - 1)) max_delay\<close>, a rational number.
\<close>

definition spec_delay :: "RetryConfig \<Rightarrow> int \<Rightarrow> rat" where
  "spec_delay cfg attempt =
     min (of_int (base_delay_seconds cfg) * multiplier cfg ^ nat (attempt - 1))
         (of_int (max_delay_seconds cfg))"

subsection \<open>Log monitor (error\_detector.py)\<close>

text \<open>
  The regular expressions of the module are translated by hand into matching functions;
  \<^verbatim>\<open>\d\<close> is an ASCII digit and \<^verbatim>\<open>.\<close> is any character but the newline.
\<close>

definition dquote :: char where
  "dquote = CHR 0x22"

definition squote :: char where
  "squote = CHR 0x27"

definition digit :: "char \<Rightarrow> bool" where
  "digit c = (c \<in> set ''0123456789'')"

text \<open>A character that \<^verbatim>\<open>str.strip()\<close> removes.\<close>

definition whitespace :: "char \<Rightarrow> bool" where
  "whitespace c =
     (c \<in> set [CHR '' '', CHR 0x09, CHR 0x0A, CHR 0x0B, CHR 0x0C, CHR 0x0D,
                CHR 0x1C, CHR 0x1D, CHR 0x1E, CHR 0x1F])"

text \<open>\<^verbatim>\<open>int(s)\<close> for a string of digits.\<close>

definition digit_value :: "char \<Rightarrow> int" where
  "digit_value c = int (length (takeWhile (\<lambda>d. d \<noteq> c) ''0123456789''))"

definition int_of_digits :: "string \<Rightarrow> int" where
  "int_of_digits s = foldl (\<lambda>n c. 10 * n + digit_value c) 0 s"

text \<open>
  A fixed-width shape matched at the start of a string: \<open>d\<close> in the shape stands for one
  digit, any other character for itself. The result is the rest of the string.
\<close>

fun match_shape :: "string \<Rightarrow> string \<Rightarrow> string option" where
  "match_shape [] s = Some s"
| "match_shape (p # ps) [] = None"
| "match_shape (p # ps) (c # cs) =
     (if (if p = CHR ''d'' then digit c else c = p) then match_shape ps cs else None)"

text \<open>
  \<^verbatim>\<open>ERROR_START_PATTERN.match(line)\<close>:
  \<^verbatim>\<open>^\d{4}-\d{2}-\d{2} \d{2}:\d{2}:\d{2},\d{3} \d+ (ERROR|CRITICAL|WARNING)\<close>.
\<close>

definition error_start_match :: "string \<Rightarrow> bool" where
  "error_start_match line =
     (case match_shape ''dddd-dd-dd dd:dd:dd,ddd '' line of
        None \<Rightarrow> False
      | Some r \<Rightarrow>
          takeWhile digit r \<noteq> [] \<and>
          (prefix '' ERROR'' (dropWhile digit r) \<or>
           prefix '' CRITICAL'' (dropWhile digit r) \<or>
           prefix '' WARNING'' (dropWhile digit r)))"

text \<open>
  The three shapes of the patterns of \<^verbatim>\<open>ERROR_PATTERNS\<close>:
  \<^verbatim>\<open>P(.*)\<close>, \<^verbatim>\<open>P'(.*)'\<close> and \<^verbatim>\<open>Error: (.*\.js:\d+)\<close>, for a literal \<open>P\<close>.
\<close>

datatype pattern = RestOfLine string | QuotedRestOfLine string | JsLocation

definition rest_of_line :: "string \<Rightarrow> string" where
  "rest_of_line s = takeWhile (\<lambda>c. c \<noteq> newline) s"

text \<open>
  The length of the longest prefix of a line that \<^verbatim>\<open>.*\.js:\d+\<close> matches: it ends at the
  digits after the last \<^verbatim>\<open>.js:\<close> that is followed by a digit.
\<close>

fun js_end :: "string \<Rightarrow> nat option" where
  "js_end [] = None"
| "js_end (c # cs) =
     (case js_end cs of
        Some n \<Rightarrow> Some (Suc n)
      | None \<Rightarrow>
          if prefix ''.js:'' (c # cs) \<and> takeWhile digit (drop 4 (c # cs)) \<noteq> []
          then Some (4 + length (takeWhile digit (drop 4 (c # cs))))
          else None)"

text \<open>The first group of the pattern matched at the start of the string, if it matches there.\<close>

definition match_here :: "pattern \<Rightarrow> string \<Rightarrow> string option" where
  "match_here pat s =
     (case pat of
        RestOfLine p \<Rightarrow>
          if prefix p s then Some (rest_of_line (drop (length p) s)) else None
      | QuotedRestOfLine p \<Rightarrow>
          if prefix (p @ [squote]) s
          then (let r = rest_of_line (drop (Suc (length p)) s);
                    upto_last = rev (dropWhile (\<lambda>c. c \<noteq> squote) (rev r))
                in if upto_last = [] then None else Some (butlast upto_last))
          else None
      | JsLocation \<Rightarrow>
          if prefix ''Error: '' s
          then (let r = rest_of_line (drop 7 s)
                in case js_end r of None \<Rightarrow> None | Some n \<Rightarrow> Some (take n r))
          else None)"

text \<open>\<^verbatim>\<open>pattern.search(text)\<close>: the leftmost match; the result is \<^verbatim>\<open>match.group(1)\<close>.\<close>

fun pattern_search :: "pattern \<Rightarrow> string \<Rightarrow> string option" where
  "pattern_search pat [] = match_here pat []"
| "pattern_search pat (c # cs) =
     (case match_here pat (c # cs) of
        Some g \<Rightarrow> Some g
      | None \<Rightarrow> pattern_search pat cs)"

text \<open>\<^verbatim>\<open>ERROR_PATTERNS\<close>, in the order of the dictionary.\<close>

definition ERROR_PATTERNS ::
  "(string \<times> pattern \<times> ErrorCategory \<times> ErrorSeverity \<times> bool) list" where
  "ERROR_PATTERNS =
     [(''ImportError'', RestOfLine ''ImportError: '', PYTHON, HIGH, True),
      (''ModuleNotFoundError'',
         QuotedRestOfLine ''ModuleNotFoundError: No module named '', DEPENDENCY, HIGH, True),
      (''SyntaxError'', RestOfLine ''SyntaxError: '', PYTHON, CRITICAL, True),
      (''AttributeError'', RestOfLine ''AttributeError: '', PYTHON, HIGH, True),
      (''TypeError'', RestOfLine ''TypeError: '', PYTHON, HIGH, True),
      (''ValueError'', RestOfLine ''ValueError: '', PYTHON, MEDIUM, True),
      (''KeyError'', RestOfLine ''KeyError: '', PYTHON, MEDIUM, True),
      (''NameError'', RestOfLine ''NameError: '', PYTHON, HIGH, True),
      (''IndentationError'', RestOfLine ''IndentationError: '', PYTHON, CRITICAL, True),
      (''psycopg2.OperationalError'',
         RestOfLine ''psycopg2.OperationalError: '', DATABASE, CRITICAL, False),
      (''psycopg2.IntegrityError'',
         RestOfLine ''psycopg2.IntegrityError: '', DATABASE, HIGH, False),
      (''psycopg2.ProgrammingError'',
         RestOfLine ''psycopg2.ProgrammingError: '', DATABASE, HIGH, True),
      (''ValidationError'',
         RestOfLine ''odoo.exceptions.ValidationError: '', ODOO, MEDIUM, True),
      (''UserError'', RestOfLine ''odoo.exceptions.UserError: '', ODOO, LOW, False),
      (''AccessError'', RestOfLine ''odoo.exceptions.AccessError: '', ODOO, MEDIUM, False),
      (''MissingError'', RestOfLine ''odoo.exceptions.MissingError: '', ODOO, MEDIUM, True),
      (''ParseError'', RestOfLine ''odoo.tools.convert.ParseError: '', ODOO, HIGH, True),
      (''JavaScriptError'', JsLocation, ASSET, MEDIUM, True),
      (''SCSSCompilation'', RestOfLine ''Error compiling scss: '', ASSET, MEDIUM, True),
      (''AssetError'', RestOfLine ''AssetError: '', ASSET, MEDIUM, True)]"

text \<open>
  \<^verbatim>\<open>TRACEBACK_FILE_PATTERN\<close>, \<^verbatim>\<open>File "([^"]+)", line (\d+)\<close>, matched at the start of the
  string: the path, the line number and the length of the match.
\<close>

definition traceback_here :: "string \<Rightarrow> (string \<times> int \<times> nat) option" where
  "traceback_here s =
     (if prefix (''File '' @ [dquote]) s
      then (let r = drop 6 s;
                path = takeWhile (\<lambda>c. c \<noteq> dquote) r;
                r2 = dropWhile (\<lambda>c. c \<noteq> dquote) r;
                ds = takeWhile digit (drop 8 r2)
            in if path \<noteq> [] \<and> prefix ([dquote] @ '', line '') r2 \<and> ds \<noteq> []
               then Some (path, int_of_digits ds, 6 + length path + 8 + length ds)
               else None)
      else None)"

text \<open>
  \<^verbatim>\<open>TRACEBACK_FILE_PATTERN.findall(text)\<close>: the matches from left to right, none
  overlapping an earlier one. \<open>skip\<close> is the number of characters still covered by the
  last match.
\<close>

fun findall_traceback :: "nat \<Rightarrow> string \<Rightarrow> (string \<times> int) list" where
  "findall_traceback skip [] = []"
| "findall_traceback skip (c # cs) =
     (if skip > 0 then findall_traceback (skip - 1) cs
      else (case traceback_here (c # cs) of
              Some (path, n, len) \<Rightarrow> (path, n) # findall_traceback (len - 1) cs
            | None \<Rightarrow> findall_traceback 0 cs))"

text \<open>\<^verbatim>\<open>_extract_location\<close>: the last element of \<^verbatim>\<open>findall\<close>, if there is one.\<close>

definition extract_location :: "string \<Rightarrow> string option \<times> int option" where
  "extract_location log_text =
     (case findall_traceback 0 log_text of
        [] \<Rightarrow> (None, None)
      | m # ms \<Rightarrow> (Some (fst (last (m # ms))), Some (snd (last (m # ms)))))"

text \<open>
  \<^verbatim>\<open>MODULE_PATH_PATTERN\<close>, \<^verbatim>\<open>/(?:custom_)?addons/([^/]+)/\<close>, matched at the start of the
  string, and \<^verbatim>\<open>_extract_module_name\<close>: the group of the leftmost match.
\<close>

definition module_here :: "string \<Rightarrow> string option" where
  "module_here s =
     (let after = (if prefix ''/custom_addons/'' s then Some (drop 15 s)
                   else if prefix ''/addons/'' s then Some (drop 8 s)
                   else None)
      in case after of
           None \<Rightarrow> None
         | Some r \<Rightarrow>
             if takeWhile (\<lambda>c. c \<noteq> CHR ''/'') r \<noteq> [] \<and> dropWhile (\<lambda>c. c \<noteq> CHR ''/'') r \<noteq> []
             then Some (takeWhile (\<lambda>c. c \<noteq> CHR ''/'') r) else None)"

fun extract_module_name :: "string \<Rightarrow> string option" where
  "extract_module_name [] = None"
| "extract_module_name (c # cs) =
     (case module_here (c # cs) of
        Some m \<Rightarrow> Some m
      | None \<Rightarrow> extract_module_name cs)"

definition extract_stack_trace :: "string \<Rightarrow> string option" where
  "extract_stack_trace log_text =
     (if contains ''Traceback'' log_text
      then Some (join [newline]
                   (dropWhile (\<lambda>line. \<not> contains ''Traceback'' line)
                      (split_on newline log_text)))
      else None)"

text \<open>\<^verbatim>\<open>.value\<close> of the two enumerations.\<close>

fun severity_value :: "ErrorSeverity \<Rightarrow> string" where
  "severity_value CRITICAL = ''CRITICAL''"
| "severity_value HIGH = ''HIGH''"
| "severity_value MEDIUM = ''MEDIUM''"
| "severity_value LOW = ''LOW''"

fun category_value :: "ErrorCategory \<Rightarrow> string" where
  "category_value PYTHON = ''PYTHON''"
| "category_value DATABASE = ''DATABASE''"
| "category_value ODOO = ''ODOO''"
| "category_value ASSET = ''ASSET''"
| "category_value DEPENDENCY = ''DEPENDENCY''"

text \<open>
  \<^verbatim>\<open>_is_duplicate_error\<close>: a row of the same type, detected after the cutoff of one minute
  before \<open>now\<close>, in status DETECTED, QUEUED or FIXING, and of the same module when
  \<^verbatim>\<open>module_name\<close> is a non-empty string. The message is not compared.
\<close>

definition is_duplicate_error :: "string \<Rightarrow> string \<Rightarrow> string option \<Rightarrow> int \<Rightarrow> Database \<Rightarrow> bool" where
  "is_duplicate_error etp msg mn now d =
     (let cutoff = now - 60000000
      in find (\<lambda>e. error_type e = etp \<and> detected_at e > cutoff \<and>
                    (status e = DETECTED \<or> status e = QUEUED \<or> status e = FIXING) \<and>
                    (case mn of
                       None \<Rightarrow> True
                     | Some m \<Rightarrow> if m \<noteq> [] then module_name' e = Some m else True))
              (errors d) \<noteq> None)"

definition create_error ::
  "string \<Rightarrow> ErrorCategory \<Rightarrow> ErrorSeverity \<Rightarrow> bool \<Rightarrow> string \<Rightarrow> string \<Rightarrow> string list
     \<Rightarrow> int \<Rightarrow> World \<Rightarrow> Error option \<times> World" where
  "create_error etp cat sev fixable msg raw ctx now w =
     (let loc = extract_location raw;
          mn = extract_module_name raw;
          trace = extract_stack_trace raw
      in if is_duplicate_error etp msg mn now (db w) then (None, w)
         else (let error =
                     \<lparr> eid = uuid_next w, error_type = etp, severity = sev, category = cat,
                       message = py_prefix 2000 msg, stack_trace = trace,
                       module_name' = mn, file_path = fst loc, line_number = snd loc,
                       context_before = Some ctx, context_after = None,
                       raw_log = Some (py_prefix 10000 raw), status = DETECTED,
                       auto_fixable = fixable, detected_at = now, resolved_at = None,
                       ignored_at = None, ignored_by = None \<rparr>
               in (Some error,
                   w\<lparr> db := (db w)\<lparr>errors := errors (db w) @ [error]\<rparr>,
                      uuid_next := Suc (uuid_next w),
                      bus := emit ERROR_DETECTED
                               [(''error_id'', PUuid (eid error)),
                                (''error_type'', PStr etp),
                                (''severity'', PStr (severity_value sev)),
                                (''category'', PStr (category_value cat)),
                                (''module'', (case mn of None \<Rightarrow> PNone | Some m \<Rightarrow> PStr m)),
                                (''auto_fixable'', PBool fixable),
                                (''message'', PStr (py_prefix 200 msg))]
                               ''error_detector'' now (bus w) \<rparr>)))"

text \<open>The first entry of the table whose pattern is found in the text, with its group.\<close>

fun first_pattern ::
  "(string \<times> pattern \<times> ErrorCategory \<times> ErrorSeverity \<times> bool) list \<Rightarrow> string
     \<Rightarrow> (string \<times> ErrorCategory \<times> ErrorSeverity \<times> bool \<times> string) option" where
  "first_pattern [] full_text = None"
| "first_pattern ((etp, pat, cat, sev, fixable) # rest) full_text =
     (case pattern_search pat full_text of
        Some g \<Rightarrow> Some (etp, cat, sev, fixable, g)
      | None \<Rightarrow> first_pattern rest full_text)"

definition process_error_block :: "int \<Rightarrow> string list \<Rightarrow> World \<Rightarrow> World" where
  "process_error_block now lines w =
     (case lines of
        [] \<Rightarrow> w
      | first_line # _ \<Rightarrow>
          (let full_text = join [newline] lines;
               ctx = py_slice_from (- int (context_size w)) (context_buffer w)
           in case first_pattern ERROR_PATTERNS full_text of
                Some (etp, cat, sev, fixable, g) \<Rightarrow>
                  snd (create_error etp cat sev fixable g full_text ctx now w)
              | None \<Rightarrow>
                  if contains ''ERROR'' first_line \<or> contains ''CRITICAL'' first_line
                  then snd (create_error ''UnknownError'' PYTHON HIGH True
                              (py_prefix 500 first_line) full_text ctx now w)
                  else w))"

text \<open>
  The loop of \<^verbatim>\<open>_process_log_content\<close> over the lines, with its two local variables,
  and the flush of the open block after the loop.
\<close>

fun process_lines :: "int \<Rightarrow> string list \<Rightarrow> string list \<Rightarrow> bool \<Rightarrow> World \<Rightarrow> World" where
  "process_lines now [] error_block in_error_block w =
     (if in_error_block \<and> error_block \<noteq> [] then process_error_block now error_block w else w)"
| "process_lines now (line # lines) error_block in_error_block w =
     (if \<forall>c\<in>set line. whitespace c
      then process_lines now lines error_block in_error_block w
      else (let buf = context_buffer w @ [line];
                w1 = w\<lparr>context_buffer :=
                         (if length buf > context_size w * 2 then tl buf else buf)\<rparr>
            in if error_start_match line
               then process_lines now lines [line] True
                      (if in_error_block \<and> error_block \<noteq> []
                       then process_error_block now error_block w1 else w1)
               else if in_error_block
               then (if prefix '' '' line \<or> prefix [CHR 0x09] line \<or> contains ''Traceback'' line
                     then process_lines now lines (error_block @ [line]) True w1
                     else process_lines now lines [] False
                            (process_error_block now error_block w1))
               else process_lines now lines error_block in_error_block w1))"

definition process_log_content :: "int \<Rightarrow> string \<Rightarrow> World \<Rightarrow> World" where
  "process_log_content now content w = process_lines now (split_on newline content) [] False w"

text \<open>
  \<^verbatim>\<open>scan_log_file\<close>. \<open>file\<close> is the text of the log file, \<open>None\<close> when it does not exist.
  The rows returned are the newest first, \<open>limit\<close> of them at most; under SQLite, the
  database of the default settings, a negative \<^verbatim>\<open>LIMIT\<close> is no limit.
\<close>

definition scan_log_file :: "string option \<Rightarrow> int option \<Rightarrow> int \<Rightarrow> int \<Rightarrow> World \<Rightarrow> Error list \<times> World" where
  "scan_log_file file since limit now w =
     (case file of
        None \<Rightarrow> ([], w)
      | Some content \<Rightarrow>
          (let original_running = detector_running w;
               w1 = w\<lparr>detector_running := False\<rparr>;
               w2 = process_log_content now content w1;
               w3 = w2\<lparr>detector_running := original_running\<rparr>;
               rows = rev (sort_key detected_at
                             (filter (\<lambda>e. case since of None \<Rightarrow> True
                                            | Some s \<Rightarrow> detected_at e \<ge> s)
                                (errors (db w3))))
           in ((if limit < 0 then rows else take (nat limit) rows), w3)))"

subsection \<open>Runs of the system\<close>




subsection \<open>Test fixtures\<close>

text \<open>An auto-fixable Error record with the given key, status and detection time.\<close>

definition example_error :: "uuid \<Rightarrow> ErrorStatus \<Rightarrow> int \<Rightarrow> Error" where
  "example_error i st t =
     \<lparr> eid = i, error_type = ''ImportError'', severity = HIGH, category = PYTHON,
       message = ''No module named foo'', stack_trace = None, module_name' = None,
       file_path = None, line_number = None, context_before = Some [],
       context_after = None, raw_log = Some ''ImportError: No module named foo'',
       status = st, auto_fixable = True, detected_at = t, resolved_at = None,
       ignored_at = None, ignored_by = None \<rparr>"

text \<open>A closed FixAttempt row.\<close>

definition example_attempt :: "nat \<Rightarrow> uuid \<Rightarrow> int \<Rightarrow> FixAttemptStatus \<Rightarrow> int \<Rightarrow> FixAttempt" where
  "example_attempt k i n st t =
     \<lparr> fid = k, error_id = i, attempt_number = n, fa_status = st,
       claude_prompt = None, claude_response = None, files_modified = None,
       fix_diff = None, error_after_fix = None, execution_time_seconds = None,
       started_at = t - 1000000, completed_at = Some t \<rparr>"

text \<open>
  A store with a QUEUED error (key 1) whose only attempt was closed at second 100, and a
  younger DETECTED error (key 2); both are auto-fixable.
\<close>

definition world_queued_and_detected :: World where
  "world_queued_and_detected =
     World_init\<lparr>db :=
       \<lparr> errors = [example_error 1 QUEUED 0, example_error 2 DETECTED 1000000],
         fix_attempts = [example_attempt 1 1 1 ATTEMPT_FAILED 100000000] \<rparr>\<rparr>"





text \<open>A store with one QUEUED auto-fixable error (key 1) and no attempts.\<close>

definition world_one_queued :: World where
  "world_one_queued =
     World_init\<lparr>db := \<lparr> errors = [example_error 1 QUEUED 0], fix_attempts = [] \<rparr>\<rparr>"


text \<open>A log file of one line: an ERROR record that reports an ImportError.\<close>

definition log_one_import_error :: string where
  "log_one_import_error =
     ''2024-01-15 10:30:00,123 42 ERROR db odoo.modules: ImportError: No module named foo''"


section \<open>Theorems\<close>

subsection \<open>Event bus history\<close>

lemma publish_history:
  "history (publish e b0) =
     (if int (length (history b0)) + 1 > history_size b0
      then tl (history b0 @ [e]) else history b0 @ [e])"
  by (simp add: publish_def Let_def)

lemma EventBus_init_history_size [simp]: "history_size (EventBus_init n) = n"
  by (simp add: EventBus_init_def)

lemma publish_history_size [simp]: "history_size (publish e b0) = history_size b0"
  by (simp add: publish_def Let_def)

lemma publish_all_history_size [simp]:
  "history_size (publish_all evs b0) = history_size b0"
  unfolding publish_all_def by (induction evs arbitrary: b0) simp_all

lemma publish_all_snoc:
  "publish_all (evs @ [e]) b0 = publish e (publish_all evs b0)"
  by (simp add: publish_all_def)

lemma publish_all_history:
  assumes "0 \<le> n"
  shows "history (publish_all evs (EventBus_init n)) = drop (length evs - nat n) evs"
proof (induction evs rule: rev_induct)
  case Nil
  show ?case by (simp add: publish_all_def EventBus_init_def)
next
  case (snoc e evs)
  let ?b = "publish_all evs (EventBus_init n)"
  have hs: "history_size ?b = n" by simp
  have len: "length (history ?b) = length evs - (length evs - nat n)"
    using snoc by simp
  show ?case
  proof (cases "length evs < nat n")
    case True
    then have "\<not> int (length (history ?b)) + 1 > n" using len assms by linarith
    then have "history (publish e ?b) = history ?b @ [e]"
      by (simp add: publish_history hs)
    also have "\<dots> = drop (length (evs @ [e]) - nat n) (evs @ [e])"
      using True snoc by simp
    finally show ?thesis by (simp add: publish_all_snoc)
  next
    case False
    then have full: "length (history ?b) = nat n" using len by linarith
    then have "int (length (history ?b)) + 1 > n" using assms by linarith
    then have "history (publish e ?b) = tl (history ?b @ [e])"
      by (simp add: publish_history hs)
    also have "\<dots> = tl (drop (length evs - nat n) (evs @ [e]))"
      using snoc False by simp
    also have "\<dots> = drop (Suc (length evs - nat n)) (evs @ [e])"
      by (simp only: drop_Suc tl_drop)
    also have "Suc (length evs - nat n) = length (evs @ [e]) - nat n"
      using False by simp
    finally show ?thesis by (simp add: publish_all_snoc)
  qed
qed

text \<open>
  Claim C7. After any sequence of publish operations on a bus constructed with a
  non-negative \<open>history_size\<close>, the history holds at most \<open>history_size\<close> events and they are
  exactly the most recently published ones, in publish order (the oldest are the ones
  evicted). In particular, after 150 publishes on a bus of the default size 100 the
  history, and what \<open>get_history\<close> returns with limit 100, is exactly events 50..149.
\<close>

theorem C7_history_bounded_most_recent:
  "(0 \<le> n \<longrightarrow>
      int (length (history (publish_all evs (EventBus_init n)))) \<le> n \<and>
      history (publish_all evs (EventBus_init n)) = drop (length evs - nat n) evs \<and>
      suffix (history (publish_all evs (EventBus_init n))) evs) \<and>
   history (publish_all (map numbered_event [0..<150]) (EventBus_init default_history_size))
     = map numbered_event [50..<150] \<and>
   get_history None 100
       (publish_all (map numbered_event [0..<150]) (EventBus_init default_history_size))
     = map numbered_event [50..<150]"
proof -
  have gen: "0 \<le> n \<Longrightarrow>
      int (length (history (publish_all evs (EventBus_init n)))) \<le> n \<and>
      history (publish_all evs (EventBus_init n)) = drop (length evs - nat n) evs \<and>
      suffix (history (publish_all evs (EventBus_init n))) evs"
    by (simp add: publish_all_history suffix_drop)
  have h150: "history (publish_all (map numbered_event [0..<150])
                 (EventBus_init default_history_size)) = map numbered_event [50..<150]"
    by (simp add: publish_all_history default_history_size_def drop_map)
  have "get_history None 100
          (publish_all (map numbered_event [0..<150]) (EventBus_init default_history_size))
        = map numbered_event [50..<150]"
    by (simp add: get_history_def h150 py_slice_from_def)
  with gen h150 show ?thesis by blast
qed

theorem C7_history_bounded_most_recent_witness:
  "(0::int) \<le> 2 \<and>
   history (publish_all [numbered_event 0, numbered_event 1, numbered_event 2]
              (EventBus_init 2)) = [numbered_event 1, numbered_event 2]"
  using C7_history_bounded_most_recent
          [of 2 "[numbered_event 0, numbered_event 1, numbered_event 2]"]
  by simp

subsection \<open>Retry delay\<close>

lemma binary64I:
  assumes "\<bar>m\<bar> < 2 ^ 53" "-1074 \<le> e" "e \<le> 971"
  shows "binary64 (of_int m * 2 powi e)"
proof -
  let ?x = "rat_of_int m * 2 powi e"
  have nz: "(2::rat) powi e \<noteq> 0" by simp
  have q: "?x / 2 powi e = rat_of_int m" using nz by simp
  have "rat_of_int \<bar>m\<bar> < rat_of_int (2 ^ 53)" using assms(1) by (simp only: of_int_less_iff)
  then have b: "\<bar>rat_of_int m\<bar> < 2 ^ 53" by simp
  have "of_int \<lfloor>?x / 2 powi e\<rfloor> = ?x / 2 powi e \<and> \<bar>?x / 2 powi e\<bar> < 2 ^ 53"
    unfolding q using b by simp
  moreover have "e \<in> {-1074..971}" using assms(2,3) by simp
  ultimately show ?thesis unfolding binary64_def by blast
qed

lemma binary64_of_int: "\<bar>m\<bar> < 2 ^ 53 \<Longrightarrow> binary64 (of_int m)"
  using binary64I [of m 0] by simp

lemma binary64_numeral [simp]: "numeral k < (2::int) ^ 53 \<Longrightarrow> binary64 (numeral k)"
  using binary64_of_int [of "numeral k"] by simp

lemma binary64_0 [simp]: "binary64 0"
  using binary64_of_int [of 0] by simp

lemma binary64_1 [simp]: "binary64 1"
  using binary64_of_int [of 1] by simp

lemma binary64_halves: "binary64 (3 / 2)" "binary64 (9 / 4)" "binary64 (45 / 2)"
  using binary64I [of 3 "-1"] binary64I [of 9 "-2"] binary64I [of 45 "-1"]
  by (simp_all add: power_int_minus field_simps)

lemma py_int_of_int [simp]: "py_int (of_int k) = k"
  by (simp add: py_int_def)

lemma py_int_nonneg: "0 \<le> x \<Longrightarrow> py_int x = \<lfloor>x\<rfloor>"
  by (simp add: py_int_def)

lemma floor_min: "\<lfloor>min x (rat_of_int m)\<rfloor> = min \<lfloor>x\<rfloor> m"
proof (cases "x \<le> rat_of_int m")
  case True
  then have "\<lfloor>x\<rfloor> \<le> m" by (metis floor_mono floor_of_int)
  then show ?thesis using True by (simp add: min_def)
next
  case False
  then have "rat_of_int m \<le> x" by simp
  then have "m \<le> \<lfloor>x\<rfloor>" by (simp add: le_floor_iff)
  then show ?thesis using False by (simp add: min_def)
qed

lemma get_delay_exact:
  "1 \<le> n \<Longrightarrow> delay_exact cfg n \<Longrightarrow>
   get_delay cfg n =
     Inr (min (py_int (of_int (base_delay_seconds cfg) * multiplier cfg ^ nat (n - 1)))
              (max_delay_seconds cfg))"
  by (auto simp: get_delay_def float_pow_def float_of_int_def float_mul_def
        delay_exact_def Let_def)

lemma get_delay_value:
  "1 \<le> n \<Longrightarrow> get_delay cfg n = Inr d \<Longrightarrow>
   d = min (py_int (of_int (base_delay_seconds cfg) * multiplier cfg ^ nat (n - 1)))
           (max_delay_seconds cfg)"
  by (auto simp: get_delay_def float_pow_def float_of_int_def float_mul_def Let_def
        split: if_splits)

lemma get_delay_default_table:
  "get_delay RetryConfig_default 1 = Inr 60"
  "get_delay RetryConfig_default 2 = Inr 120"
  "get_delay RetryConfig_default 3 = Inr 240"
  "get_delay RetryConfig_default 4 = Inr 480"
  "get_delay RetryConfig_default 5 = Inr 960"
  by (simp_all add: get_delay_def float_pow_def float_of_int_def float_mul_def
        RetryConfig_default_def py_int_def eval_nat_numeral)

text \<open>
  Claim C5, as stated, fails: with base delay 10, multiplier 1.5 and maximum 960 the
  third delay is \<open>int(22.5) = 22\<close>, while the stated formula gives 22.5.
\<close>

theorem C5_counterexample:
  "get_delay \<lparr> max_attempts = 5, base_delay_seconds = 10, multiplier = 3 / 2,
               max_delay_seconds = 960 \<rparr> 3 = Inr 22 \<and>
   spec_delay \<lparr> max_attempts = 5, base_delay_seconds = 10, multiplier = 3 / 2,
                max_delay_seconds = 960 \<rparr> 3 = 45 / 2 \<and>
   rat_of_int 22 \<noteq> 45 / 2"
  by (simp add: get_delay_def float_pow_def float_of_int_def float_mul_def spec_delay_def
        py_int_def eval_nat_numeral floor_eq_iff binary64_halves)

text \<open>
  Claim C5, amended. For every attempt number \<open>n \<ge> 1\<close> for which the float computation is
  exact (the multiplier, its power \<open>multiplier^(n - 1)\<close> and the product with the base
  delay are binary64 numbers as they stand, with no rounding and no overflow), the delay
  function returns \<open>min (int (base_delay \<times> multiplier^(n - 1))) max_delay\<close>, where \<open>int\<close>
  drops the fractional part; for a non-negative base delay and multiplier that is the
  integer part of the stated \<open>min (base_delay \<times> multiplier^(n - 1)) max_delay\<close>. It is
  the stated value itself whenever the multiplier is a whole number and the values stay
  below \<open>2^53\<close>. For base 60, multiplier 2.0 and maximum 960 the delays of attempts 1 to 5
  are 60, 120, 240, 480 and 960. Where the float computation rounds or overflows the
  amended claim says nothing.
\<close>

theorem C5_get_delay_truncated:
  "(1 \<le> n \<and> delay_exact cfg n \<longrightarrow>
      get_delay cfg n =
        Inr (min (py_int (of_int (base_delay_seconds cfg) * multiplier cfg ^ nat (n - 1)))
                 (max_delay_seconds cfg))) \<and>
   (1 \<le> n \<and> delay_exact cfg n \<and> 0 \<le> base_delay_seconds cfg \<and> 0 \<le> multiplier cfg \<longrightarrow>
      get_delay cfg n = Inr \<lfloor>spec_delay cfg n\<rfloor>) \<and>
   (1 \<le> n \<and> get_delay cfg n = Inr d \<longrightarrow>
      d = min (py_int (of_int (base_delay_seconds cfg) * multiplier cfg ^ nat (n - 1)))
              (max_delay_seconds cfg)) \<and>
   (1 \<le> n \<and> n \<le> 2 ^ 53 \<and> multiplier cfg = of_int k \<and> \<bar>k\<bar> < 2 ^ 53 \<and>
    \<bar>k ^ nat (n - 1)\<bar> < 2 ^ 53 \<and> \<bar>base_delay_seconds cfg\<bar> < 2 ^ 53 \<and>
    \<bar>base_delay_seconds cfg * k ^ nat (n - 1)\<bar> < 2 ^ 53 \<longrightarrow>
      (\<exists>r. get_delay cfg n = Inr r \<and> of_int r = spec_delay cfg n)) \<and>
   get_delay RetryConfig_default 1 = Inr 60 \<and>
   get_delay RetryConfig_default 2 = Inr 120 \<and>
   get_delay RetryConfig_default 3 = Inr 240 \<and>
   get_delay RetryConfig_default 4 = Inr 480 \<and>
   get_delay RetryConfig_default 5 = Inr 960"
proof -
  let ?x = "of_int (base_delay_seconds cfg) * multiplier cfg ^ nat (n - 1)"
  have a: "get_delay cfg n = Inr \<lfloor>spec_delay cfg n\<rfloor>"
    if "1 \<le> n" "delay_exact cfg n" "0 \<le> base_delay_seconds cfg" "0 \<le> multiplier cfg"
  proof -
    have "0 \<le> ?x" using that(3,4) by simp
    then have "py_int ?x = \<lfloor>?x\<rfloor>" by (rule py_int_nonneg)
    then have "get_delay cfg n = Inr (min \<lfloor>?x\<rfloor> (max_delay_seconds cfg))"
      using get_delay_exact [OF that(1,2)] by simp
    then show ?thesis by (simp add: spec_delay_def floor_min)
  qed
  have b: "\<exists>r. get_delay cfg n = Inr r \<and> of_int r = spec_delay cfg n"
    if h: "1 \<le> n" "n \<le> 2 ^ 53" "multiplier cfg = of_int k" "\<bar>k\<bar> < 2 ^ 53"
      "\<bar>k ^ nat (n - 1)\<bar> < 2 ^ 53" "\<bar>base_delay_seconds cfg\<bar> < 2 ^ 53"
      "\<bar>base_delay_seconds cfg * k ^ nat (n - 1)\<bar> < 2 ^ 53"
  proof -
    have x: "?x = rat_of_int (base_delay_seconds cfg * k ^ nat (n - 1))"
      using h(3) by simp
    have p: "multiplier cfg ^ nat (n - 1) = rat_of_int (k ^ nat (n - 1))"
      using h(3) by simp
    have "\<bar>n - 1\<bar> < 2 ^ 53" using h(1,2) by simp
    then have e: "binary64 (of_int (n - 1))" by (rule binary64_of_int)
    have "delay_exact cfg n"
      unfolding delay_exact_def x p
      using e binary64_of_int [OF h(4)] binary64_of_int [OF h(5)]
        binary64_of_int [OF h(6)] binary64_of_int [OF h(7)] h(3)
      by simp
    from get_delay_exact [OF h(1) this]
    have "get_delay cfg n =
        Inr (min (base_delay_seconds cfg * k ^ nat (n - 1)) (max_delay_seconds cfg))"
      unfolding x by (simp only: py_int_of_int)
    moreover have "rat_of_int (min (base_delay_seconds cfg * k ^ nat (n - 1))
                                   (max_delay_seconds cfg)) = spec_delay cfg n"
      using h(3) by (simp add: spec_delay_def of_int_min)
    ultimately show ?thesis by blast
  qed
  show ?thesis
    using get_delay_exact [of n cfg] get_delay_value [of n cfg d] a b
      get_delay_default_table
    by blast
qed

theorem C5_get_delay_truncated_witness:
  "(1::int) \<le> 3 \<and>
   delay_exact \<lparr> max_attempts = 5, base_delay_seconds = 10, multiplier = 3 / 2,
                 max_delay_seconds = 960 \<rparr> 3 \<and>
   get_delay \<lparr> max_attempts = 5, base_delay_seconds = 10, multiplier = 3 / 2,
               max_delay_seconds = 960 \<rparr> 3 = Inr 22"
proof -
  let ?cfg = "\<lparr> max_attempts = 5, base_delay_seconds = 10, multiplier = 3 / 2,
                max_delay_seconds = 960 \<rparr>"
  have ex: "delay_exact ?cfg 3"
    by (simp add: delay_exact_def binary64_halves eval_nat_numeral)
  note c = conjunct1 [OF conjunct2 [OF C5_get_delay_truncated [of 3 ?cfg 0 0]]]
  have "get_delay ?cfg 3 = Inr \<lfloor>spec_delay ?cfg 3\<rfloor>"
    using c ex by simp
  moreover have "\<lfloor>spec_delay ?cfg 3\<rfloor> = 22"
    by (simp add: spec_delay_def eval_nat_numeral floor_eq_iff)
  ultimately show ?thesis using ex by simp
qed

subsection \<open>Database lemmas\<close>

lemma errors_update_attempt [simp]: "errors (update_attempt k f d) = errors d"
  by (simp add: update_attempt_def)

lemma fix_attempts_update_error [simp]: "fix_attempts (update_error i f d) = fix_attempts d"
  by (simp add: update_error_def)

lemma get_error_update_attempt [simp]: "get_error i (update_attempt k f d) = get_error i d"
  by (simp add: get_error_def)

lemma fix_attempts_of_update_error [simp]:
  "fix_attempts_of i (update_error j f d) = fix_attempts_of i d"
  by (simp add: fix_attempts_of_def)

lemma find_eid_map:
  assumes "\<And>e. eid (f e) = eid e"
  shows "find (\<lambda>e. eid e = i) (map (\<lambda>e. if eid e = j then f e else e) xs) =
         (if i = j then map_option f (find (\<lambda>e. eid e = i) xs) else find (\<lambda>e. eid e = i) xs)"
  using assms by (induction xs) auto

lemma get_error_update_error:
  assumes "\<And>e. eid (f e) = eid e"
  shows "get_error i (update_error j f d) =
         (if i = j then map_option f (get_error i d) else get_error i d)"
  using find_eid_map [OF assms] by (simp add: get_error_def update_error_def)

lemma get_error_eid: "get_error i d = Some e \<Longrightarrow> eid e = i"
  by (auto simp: get_error_def dest: find_Some_iff [THEN iffD1])

lemma get_error_mem: "get_error i d = Some e \<Longrightarrow> e \<in> set (errors d)"
  by (auto simp: get_error_def find_Some_iff)

lemma published_emit [simp]:
  "published (emit t pl src now b0) =
     published b0 @ [\<lparr> etype = t, payload = pl, timestamp = now, source = src \<rparr>]"
  by (simp add: emit_def publish_def Let_def)

subsection \<open>Manual ignore\<close>

text \<open>
  Claim C2, as stated, fails: an Error whose status is RESOLVED is ignored all the same;
  the call returns true and the record becomes IGNORED.
\<close>

theorem C2_counterexample:
  "fst (ignore_error 7 ''alice'' 5000000
          (World_init\<lparr>db := \<lparr> errors = [example_error 7 RESOLVED 0], fix_attempts = [] \<rparr>\<rparr>))
     = True \<and>
   map status (errors (db (snd (ignore_error 7 ''alice'' 5000000
          (World_init\<lparr>db := \<lparr> errors = [example_error 7 RESOLVED 0], fix_attempts = [] \<rparr>\<rparr>)))))
     = [IGNORED]"
  by (simp add: ignore_error_def get_error_def example_error_def World_init_def
        update_error_def)

text \<open>
  Claim C2, amended. \<open>ignore_error\<close> returns true exactly when the Error exists, whatever
  its status (terminal or not): the Error then becomes IGNORED, the actor and the time are
  recorded on it, its other fields are unchanged, and an \<open>ERROR_IGNORED\<close> event is published.
  When no Error has the given key it returns false, without raising, and nothing changes.
\<close>

theorem C2_ignore_error_any_status:
  "(fst (ignore_error i u now w) \<longleftrightarrow> get_error i (db w) \<noteq> None) \<and>
   (get_error i (db w) = None \<longrightarrow> ignore_error i u now w = (False, w)) \<and>
   (\<forall>e. get_error i (db w) = Some e \<longrightarrow>
      get_error i (db (snd (ignore_error i u now w))) =
        Some (e\<lparr> status := IGNORED, ignored_at := Some now, ignored_by := Some u \<rparr>) \<and>
      published (bus (snd (ignore_error i u now w))) =
        published (bus w) @
          [\<lparr> etype = ERROR_IGNORED,
             payload = [(''error_id'', PUuid i), (''ignored_by'', PStr u)],
             timestamp = now, source = ''error_fixer'' \<rparr>])"
  by (auto simp: ignore_error_def get_error_update_error split: option.splits)

theorem C2_ignore_error_any_status_witness:
  "get_error 7 (db (World_init\<lparr>db := \<lparr> errors = [example_error 7 FAILED 0], fix_attempts = [] \<rparr>\<rparr>))
     = Some (example_error 7 FAILED 0) \<and>
   get_error 7 (db (snd (ignore_error 7 ''alice'' 5000000
       (World_init\<lparr>db := \<lparr> errors = [example_error 7 FAILED 0], fix_attempts = [] \<rparr>\<rparr>)))) =
     Some ((example_error 7 FAILED 0)
             \<lparr> status := IGNORED, ignored_at := Some 5000000, ignored_by := Some ''alice'' \<rparr>)"
  using C2_ignore_error_any_status
          [of 7 "''alice''" 5000000
              "World_init\<lparr>db := \<lparr> errors = [example_error 7 FAILED 0], fix_attempts = [] \<rparr>\<rparr>"]
  by (simp add: get_error_def example_error_def World_init_def)

subsection \<open>Selection of the next error\<close>

lemma first_auto_fixable_Some:
  assumes "first_auto_fixable st d = Some e"
  shows "e \<in> set (errors d) \<and> status e = st \<and> auto_fixable e \<and>
         (\<forall>e'\<in>set (errors d). status e' = st \<and> auto_fixable e' \<longrightarrow>
              detected_at e \<le> detected_at e')"
proof -
  let ?xs = "filter (\<lambda>e. status e = st \<and> auto_fixable e) (errors d)"
  obtain rest where srt: "sort_key detected_at ?xs = e # rest"
    using assms by (auto simp: first_auto_fixable_def split: list.splits)
  have "set (e # rest) = set ?xs" using srt set_sort [of detected_at ?xs] by simp
  then have mem: "e \<in> set ?xs" and sub: "set ?xs \<subseteq> insert e (set rest)" by auto
  have "sorted (map detected_at (e # rest))"
    using sorted_sort_key [of detected_at ?xs] srt by simp
  then have "\<forall>x\<in>set rest. detected_at e \<le> detected_at x" by simp
  with sub have "\<forall>x\<in>set ?xs. detected_at e \<le> detected_at x" by auto
  with mem show ?thesis by auto
qed

lemma first_auto_fixable_None:
  "first_auto_fixable st d = None \<longleftrightarrow>
     (\<forall>e\<in>set (errors d). \<not> (status e = st \<and> auto_fixable e))"
proof -
  let ?xs = "filter (\<lambda>e. status e = st \<and> auto_fixable e) (errors d)"
  have "first_auto_fixable st d = None \<longleftrightarrow> sort_key detected_at ?xs = []"
    by (simp add: first_auto_fixable_def split: list.splits)
  also have "\<dots> \<longleftrightarrow> set (sort_key detected_at ?xs) = {}" by (simp only: set_empty)
  also have "\<dots> \<longleftrightarrow> set ?xs = {}" by (simp only: set_sort)
  also have "\<dots> \<longleftrightarrow> (\<forall>e\<in>set (errors d). \<not> (status e = st \<and> auto_fixable e))"
    by (auto simp: filter_empty_conv)
  finally show ?thesis .
qed

lemma get_error_exists: "e \<in> set (errors d) \<Longrightarrow> \<exists>e'. get_error (eid e) d = Some e'"
proof -
  assume "e \<in> set (errors d)"
  then have "find (\<lambda>x. eid x = eid e) (errors d) \<noteq> None"
    by (auto simp: find_None_iff)
  then show ?thesis by (auto simp: get_error_def)
qed

lemma poll_not_ready:
  assumes q: "first_auto_fixable QUEUED (db w) = Some q"
    and cap: "int (length (fix_attempts_of (eid q) (db w))) < max_attempts (retry cfg)"
    and pend: "backoff_pending cfg now (fix_attempts_of (eid q) (db w)) = Inr True"
  shows "fixing_loop_poll cfg now w = w"
proof -
  have "q \<in> set (errors (db w))" using first_auto_fixable_Some [OF q] by simp
  then obtain e' where "get_error (eid q) (db w) = Some e'"
    using get_error_exists by blast
  then have "process_error_begin cfg now (eid q) w = Inl MissingGreenlet"
    by (simp add: process_error_begin_def read_fix_attempts_def)
  then show ?thesis using q by (simp add: fixing_loop_poll_def get_next_error_def)
qed

text \<open>
  Claim C3, as stated, fails: with a QUEUED error whose backoff (60 s after its attempt
  closed at second 100) has not elapsed at second 110, and a DETECTED auto-fixable error,
  the poll selects the QUEUED error and ends with the store as it was; the DETECTED error
  is not queued.
\<close>

theorem C3_counterexample:
  "backoff_pending Settings_default 110000000
       (fix_attempts_of 1 (db world_queued_and_detected)) = Inr True \<and>
   get_next_error world_queued_and_detected
     = (Some (example_error 1 QUEUED 0), world_queued_and_detected) \<and>
   fixing_loop_poll Settings_default 110000000 world_queued_and_detected
     = world_queued_and_detected \<and>
   map status (errors (db (fixing_loop_poll Settings_default 110000000
                              world_queued_and_detected))) = [QUEUED, DETECTED]"
  by (simp add: fixing_loop_poll_def get_next_error_def first_auto_fixable_def
        process_error_begin_def read_fix_attempts_def backoff_pending_def
        fix_attempts_of_def get_error_def
        world_queued_and_detected_def World_init_def example_error_def
        example_attempt_def Settings_default_def RetryConfig_default_def
        get_delay_def float_pow_def float_of_int_def float_mul_def py_int_def Let_def)

text \<open>
  Claim C3, amended. On each poll, if any auto-fixable QUEUED error exists, the one with
  the oldest \<open>detected_at\<close> is selected, whether or not its backoff delay has elapsed, and
  the store is left as it is: no DETECTED error is queued on that poll. When the selected
  QUEUED error is below the attempt cap and its backoff has not elapsed, the whole poll
  changes nothing. Only when no auto-fixable QUEUED error exists is the oldest
  auto-fixable DETECTED error transitioned to QUEUED and selected; with neither, nothing
  is selected.
\<close>

theorem C3_get_next_error_selection:
  "((\<exists>q\<in>set (errors (db w)). status q = QUEUED \<and> auto_fixable q) \<longrightarrow>
      (\<exists>e\<in>set (errors (db w)). status e = QUEUED \<and> auto_fixable e \<and>
         (\<forall>e'\<in>set (errors (db w)). status e' = QUEUED \<and> auto_fixable e' \<longrightarrow>
              detected_at e \<le> detected_at e') \<and>
         get_next_error w = (Some e, w))) \<and>
   (\<forall>q. first_auto_fixable QUEUED (db w) = Some q \<and>
        int (length (fix_attempts_of (eid q) (db w))) < max_attempts (retry cfg) \<and>
        backoff_pending cfg now (fix_attempts_of (eid q) (db w)) = Inr True \<longrightarrow>
        fixing_loop_poll cfg now w = w) \<and>
   ((\<forall>q\<in>set (errors (db w)). \<not> (status q = QUEUED \<and> auto_fixable q)) \<and>
    (\<exists>x\<in>set (errors (db w)). status x = DETECTED \<and> auto_fixable x) \<longrightarrow>
      (\<exists>e\<in>set (errors (db w)). status e = DETECTED \<and> auto_fixable e \<and>
         (\<forall>e'\<in>set (errors (db w)). status e' = DETECTED \<and> auto_fixable e' \<longrightarrow>
              detected_at e \<le> detected_at e') \<and>
         get_next_error w =
           (Some (e\<lparr>status := QUEUED\<rparr>),
            w\<lparr>db := update_error (eid e) (\<lambda>r. r\<lparr>status := QUEUED\<rparr>) (db w)\<rparr>))) \<and>
   ((\<forall>q\<in>set (errors (db w)). \<not> (status q = QUEUED \<and> auto_fixable q)) \<and>
    (\<forall>x\<in>set (errors (db w)). \<not> (status x = DETECTED \<and> auto_fixable x)) \<longrightarrow>
      get_next_error w = (None, w))"
proof -
  have a: "\<exists>e\<in>set (errors (db w)). status e = QUEUED \<and> auto_fixable e \<and>
         (\<forall>e'\<in>set (errors (db w)). status e' = QUEUED \<and> auto_fixable e' \<longrightarrow>
              detected_at e \<le> detected_at e') \<and>
         get_next_error w = (Some e, w)"
    if "\<exists>q\<in>set (errors (db w)). status q = QUEUED \<and> auto_fixable q"
  proof -
    from that have "first_auto_fixable QUEUED (db w) \<noteq> None"
      by (simp add: first_auto_fixable_None)
    then obtain e where e: "first_auto_fixable QUEUED (db w) = Some e" by auto
    then have "get_next_error w = (Some e, w)" by (simp add: get_next_error_def)
    with first_auto_fixable_Some [OF e] show ?thesis by blast
  qed
  have c: "\<exists>e\<in>set (errors (db w)). status e = DETECTED \<and> auto_fixable e \<and>
         (\<forall>e'\<in>set (errors (db w)). status e' = DETECTED \<and> auto_fixable e' \<longrightarrow>
              detected_at e \<le> detected_at e') \<and>
         get_next_error w =
           (Some (e\<lparr>status := QUEUED\<rparr>),
            w\<lparr>db := update_error (eid e) (\<lambda>r. r\<lparr>status := QUEUED\<rparr>) (db w)\<rparr>)"
    if nq: "\<forall>q\<in>set (errors (db w)). \<not> (status q = QUEUED \<and> auto_fixable q)"
      and dx: "\<exists>x\<in>set (errors (db w)). status x = DETECTED \<and> auto_fixable x"
  proof -
    from nq have n: "first_auto_fixable QUEUED (db w) = None"
      by (simp add: first_auto_fixable_None)
    from dx have "first_auto_fixable DETECTED (db w) \<noteq> None"
      by (simp add: first_auto_fixable_None)
    then obtain e where e: "first_auto_fixable DETECTED (db w) = Some e" by auto
    with n have "get_next_error w =
           (Some (e\<lparr>status := QUEUED\<rparr>),
            w\<lparr>db := update_error (eid e) (\<lambda>r. r\<lparr>status := QUEUED\<rparr>) (db w)\<rparr>)"
      by (simp add: get_next_error_def)
    with first_auto_fixable_Some [OF e] show ?thesis by blast
  qed
  have d: "get_next_error w = (None, w)"
    if "\<forall>q\<in>set (errors (db w)). \<not> (status q = QUEUED \<and> auto_fixable q)"
      and "\<forall>x\<in>set (errors (db w)). \<not> (status x = DETECTED \<and> auto_fixable x)"
  proof -
    have "first_auto_fixable QUEUED (db w) = None" "first_auto_fixable DETECTED (db w) = None"
      using that by (simp_all add: first_auto_fixable_None)
    then show ?thesis by (simp add: get_next_error_def)
  qed
  show ?thesis using a c d poll_not_ready by blast
qed

theorem C3_get_next_error_selection_witness:
  "(\<exists>q\<in>set (errors (db world_queued_and_detected)). status q = QUEUED \<and> auto_fixable q) \<and>
   first_auto_fixable QUEUED (db world_queued_and_detected) = Some (example_error 1 QUEUED 0) \<and>
   backoff_pending Settings_default 110000000
       (fix_attempts_of 1 (db world_queued_and_detected)) = Inr True \<and>
   fixing_loop_poll Settings_default 110000000 world_queued_and_detected
     = world_queued_and_detected"
  using C3_get_next_error_selection
          [of world_queued_and_detected Settings_default 110000000]
  by (simp add: first_auto_fixable_def backoff_pending_def fix_attempts_of_def
        world_queued_and_detected_def World_init_def example_error_def
        example_attempt_def Settings_default_def RetryConfig_default_def
        get_delay_def float_pow_def float_of_int_def float_mul_def py_int_def)

subsection \<open>The fix pipeline stops at the read of the attempts\<close>













subsection \<open>Bulk scan\<close>

lemma first_pattern_import_error:
  "first_pattern ERROR_PATTERNS log_one_import_error
     = Some (''ImportError'', PYTHON, HIGH, True, ''No module named foo'')"
  by (simp add: ERROR_PATTERNS_def log_one_import_error_def match_here_def
        rest_of_line_def newline_def)

lemma error_start_import_error: "error_start_match log_one_import_error"
  by (simp add: error_start_match_def log_one_import_error_def digit_def)

lemma extract_import_error:
  "extract_location log_one_import_error = (None, None)"
  "extract_module_name log_one_import_error = None"
  "extract_stack_trace log_one_import_error = None"
  by (simp_all add: extract_location_def extract_stack_trace_def log_one_import_error_def
        traceback_here_def module_here_def dquote_def)

lemma split_import_error: "split_on newline log_one_import_error = [log_one_import_error]"
  by (simp add: log_one_import_error_def newline_def)

lemma nonblank_import_error: "\<not> (\<forall>c\<in>set log_one_import_error. whitespace c)"
  by (simp add: log_one_import_error_def whitespace_def)

text \<open>The flag \<^verbatim>\<open>_running\<close> of the monitor has no effect on the creation of errors.\<close>

lemma create_error_running:
  "create_error etp cat sev fx msg raw ctx now (w\<lparr>detector_running := b\<rparr>) =
     (fst (create_error etp cat sev fx msg raw ctx now w),
      (snd (create_error etp cat sev fx msg raw ctx now w))\<lparr>detector_running := b\<rparr>)"
  by (simp add: create_error_def Let_def)

lemma process_error_block_running:
  "process_error_block now ls (w\<lparr>detector_running := b\<rparr>) =
     (process_error_block now ls w)\<lparr>detector_running := b\<rparr>"
  by (simp add: process_error_block_def create_error_running Let_def
           split: list.splits option.splits)

lemma process_lines_running:
  "process_lines now ls blk inb (w\<lparr>detector_running := b\<rparr>) =
     (process_lines now ls blk inb w)\<lparr>detector_running := b\<rparr>"
proof (induction ls arbitrary: blk inb w)
  case Nil
  show ?case by (simp add: process_error_block_running)
next
  case (Cons l ls)
  have upd: "\<And>f. (w\<lparr>detector_running := b\<rparr>)\<lparr>context_buffer := f\<rparr>
                 = (w\<lparr>context_buffer := f\<rparr>)\<lparr>detector_running := b\<rparr>"
    by simp
  show ?case
    by (simp add: Let_def upd Cons.IH process_error_block_running del: World.simps)
qed

lemma scan_log_file_world:
  "snd (scan_log_file (Some content) since limit now w) = process_log_content now content w"
proof -
  have "(process_lines now (split_on newline content) [] False w)
           \<lparr>detector_running := detector_running w\<rparr>
        = process_lines now (split_on newline content) [] False w"
    using process_lines_running
            [where w = w and b = "detector_running w" and now = now
               and ls = "split_on newline content" and blk = "[]" and inb = False]
    by simp
  then show ?thesis
    by (simp add: scan_log_file_def Let_def process_log_content_def process_lines_running)
qed

text \<open>
  Claim C1 fails on the code. \<^verbatim>\<open>scan_log_file\<close> sets \<^verbatim>\<open>_running\<close> to false "to disable
  event emission during scan", but \<^verbatim>\<open>_create_error\<close> never reads that flag: the scan
  leaves the store and the bus exactly as plain monitoring of the same content does. On a
  file of one ERROR line reporting an ImportError, scanned from the initial state, one
  Error is created and one \<open>ERROR_DETECTED\<close> event is published for it.
\<close>

theorem C1_scan_publishes_events:
  "snd (scan_log_file (Some content) since limit now w) = process_log_content now content w \<and>
   published (bus (snd (scan_log_file (Some log_one_import_error) None 100 1000000 World_init)))
     = [\<lparr> etype = ERROR_DETECTED,
          payload = [(''error_id'', PUuid 0),
                     (''error_type'', PStr ''ImportError''),
                     (''severity'', PStr ''HIGH''),
                     (''category'', PStr ''PYTHON''),
                     (''module'', PNone),
                     (''auto_fixable'', PBool True),
                     (''message'', PStr ''No module named foo'')],
          timestamp = 1000000, source = ''error_detector'' \<rparr>] \<and>
   map eid (errors (db (snd
      (scan_log_file (Some log_one_import_error) None 100 1000000 World_init)))) = [0]"
proof -
  have "published (bus (process_log_content 1000000 log_one_import_error World_init))
     = [\<lparr> etype = ERROR_DETECTED,
          payload = [(''error_id'', PUuid 0),
                     (''error_type'', PStr ''ImportError''),
                     (''severity'', PStr ''HIGH''),
                     (''category'', PStr ''PYTHON''),
                     (''module'', PNone),
                     (''auto_fixable'', PBool True),
                     (''message'', PStr ''No module named foo'')],
          timestamp = 1000000, source = ''error_detector'' \<rparr>]"
    "map eid (errors (db (process_log_content 1000000 log_one_import_error World_init))) = [0]"
    by (simp_all add: process_log_content_def split_import_error nonblank_import_error
          error_start_import_error process_error_block_def first_pattern_import_error
          create_error_def extract_import_error is_duplicate_error_def World_init_def
          EventBus_init_def py_prefix_def Let_def)
  then show ?thesis by (simp add: scan_log_file_world)
qed

theorem C1_scan_publishes_events_witness:
  "map etype (published (bus (process_log_content 1000000 log_one_import_error World_init)))
     = [ERROR_DETECTED]"
proof -
  note t = C1_scan_publishes_events [of log_one_import_error None 100 1000000 World_init]
  have eq: "snd (scan_log_file (Some log_one_import_error) None 100 1000000 World_init)
              = process_log_content 1000000 log_one_import_error World_init"
    by (rule conjunct1 [OF t])
  note pub = conjunct1 [OF conjunct2 [OF t]]
  show ?thesis using pub unfolding eq by simp
qed

subsection \<open>Deduplication\<close>

lemma is_duplicate_error_iff:
  "is_duplicate_error etp msg mn now d \<longleftrightarrow>
     (\<exists>x\<in>set (errors d). error_type x = etp \<and> now - 60000000 < detected_at x \<and>
        (status x = DETECTED \<or> status x = QUEUED \<or> status x = FIXING) \<and>
        (case mn of None \<Rightarrow> True
         | Some m \<Rightarrow> if m \<noteq> [] then module_name' x = Some m else True))"
  by (auto simp: is_duplicate_error_def Let_def find_None_iff)

lemma create_error_duplicate:
  "is_duplicate_error etp msg (extract_module_name raw) now (db w) \<Longrightarrow>
   create_error etp cat sev fx msg raw ctx now w = (None, w)"
  by (simp add: create_error_def Let_def)

lemma create_error_new:
  assumes "fst (create_error etp cat sev fx msg raw ctx now w) \<noteq> None"
  shows "\<exists>e. create_error etp cat sev fx msg raw ctx now w =
           (Some e, w\<lparr> db := (db w)\<lparr>errors := errors (db w) @ [e]\<rparr>,
                       uuid_next := Suc (uuid_next w),
                       bus := publish \<lparr> etype = ERROR_DETECTED,
                                payload = [(''error_id'', PUuid (eid e)),
                                  (''error_type'', PStr etp),
                                  (''severity'', PStr (severity_value sev)),
                                  (''category'', PStr (category_value cat)),
                                  (''module'', (case extract_module_name raw of
                                                  None \<Rightarrow> PNone | Some m \<Rightarrow> PStr m)),
                                  (''auto_fixable'', PBool fx),
                                  (''message'', PStr (py_prefix 200 msg))],
                                timestamp = now, source = ''error_detector'' \<rparr> (bus w) \<rparr>) \<and>
           error_type e = etp \<and> status e = DETECTED \<and> detected_at e = now \<and>
           module_name' e = extract_module_name raw \<and> eid e = uuid_next w"
  using assms by (simp add: create_error_def Let_def emit_def split: if_splits)

text \<open>
  Claim C6. If the store holds an Error of the same type (and of the same module, when a
  module name was extracted from the block) whose status is DETECTED, QUEUED or FIXING and
  which was detected less than 60 seconds before now, \<open>_create_error\<close> returns nothing and
  leaves the store and the bus as they are: no record, no event. Consequently, when a
  block has produced a record, a block of the same type and text processed less than 60
  seconds later produces none: the two blocks leave exactly one new record.
\<close>

theorem C6_duplicate_suppressed:
  "((\<exists>x\<in>set (errors (db w)).
        error_type x = etp \<and>
        (\<forall>m. extract_module_name raw = Some m \<longrightarrow> module_name' x = Some m) \<and>
        (status x = DETECTED \<or> status x = QUEUED \<or> status x = FIXING) \<and>
        now - detected_at x < 60000000) \<longrightarrow>
      create_error etp cat sev fx msg raw ctx now w = (None, w)) \<and>
   (fst (create_error etp cat sev fx msg raw ctx t1 w) \<noteq> None \<and> t2 - t1 < 60000000 \<longrightarrow>
      create_error etp cat sev fx msg raw ctx2 t2
          (snd (create_error etp cat sev fx msg raw ctx t1 w))
        = (None, snd (create_error etp cat sev fx msg raw ctx t1 w)) \<and>
      length (errors (db (snd (create_error etp cat sev fx msg raw ctx2 t2
                 (snd (create_error etp cat sev fx msg raw ctx t1 w))))))
        = Suc (length (errors (db w))))"
proof -
  have a: "create_error etp cat sev fx msg raw ctx now w = (None, w)"
    if "\<exists>x\<in>set (errors (db w)).
        error_type x = etp \<and>
        (\<forall>m. extract_module_name raw = Some m \<longrightarrow> module_name' x = Some m) \<and>
        (status x = DETECTED \<or> status x = QUEUED \<or> status x = FIXING) \<and>
        now - detected_at x < 60000000"
  proof -
    from that have "is_duplicate_error etp msg (extract_module_name raw) now (db w)"
      unfolding is_duplicate_error_iff
      by (cases "extract_module_name raw") (auto simp: algebra_simps)
    then show ?thesis by (rule create_error_duplicate)
  qed
  have b: "create_error etp cat sev fx msg raw ctx2 t2
          (snd (create_error etp cat sev fx msg raw ctx t1 w))
        = (None, snd (create_error etp cat sev fx msg raw ctx t1 w)) \<and>
      length (errors (db (snd (create_error etp cat sev fx msg raw ctx2 t2
                 (snd (create_error etp cat sev fx msg raw ctx t1 w))))))
        = Suc (length (errors (db w)))"
    if h: "fst (create_error etp cat sev fx msg raw ctx t1 w) \<noteq> None" "t2 - t1 < 60000000"
  proof -
    from create_error_new [OF h(1)] obtain e w1 where
      c: "create_error etp cat sev fx msg raw ctx t1 w = (Some e, w1)"
      and er: "errors (db w1) = errors (db w) @ [e]"
      and e: "error_type e = etp" "status e = DETECTED" "detected_at e = t1"
             "module_name' e = extract_module_name raw"
      by fastforce
    have "is_duplicate_error etp msg (extract_module_name raw) t2 (db w1)"
      unfolding is_duplicate_error_iff er using e h(2)
      by (cases "extract_module_name raw") (auto simp: algebra_simps)
    then have "create_error etp cat sev fx msg raw ctx2 t2 w1 = (None, w1)"
      by (rule create_error_duplicate)
    then show ?thesis using c er by simp
  qed
  show ?thesis using a b by blast
qed

theorem C6_duplicate_suppressed_witness:
  "fst (create_error ''ImportError'' PYTHON HIGH True ''No module named foo''
          log_one_import_error [] 1000000 World_init) \<noteq> None \<and>
   (11000000::int) - 1000000 < 60000000 \<and>
   length (errors (db (snd (create_error ''ImportError'' PYTHON HIGH True
       ''No module named foo'' log_one_import_error [] 11000000
       (snd (create_error ''ImportError'' PYTHON HIGH True ''No module named foo''
               log_one_import_error [] 1000000 World_init)))))) = 1 \<and>
   (\<exists>x\<in>set (errors (db world_one_queued)).
        error_type x = ''ImportError'' \<and>
        (\<forall>m. extract_module_name log_one_import_error = Some m \<longrightarrow> module_name' x = Some m) \<and>
        (status x = DETECTED \<or> status x = QUEUED \<or> status x = FIXING) \<and>
        11000000 - detected_at x < 60000000) \<and>
   create_error ''ImportError'' PYTHON HIGH True ''No module named foo''
       log_one_import_error [] 11000000 world_one_queued = (None, world_one_queued)"
proof -
  have h1: "fst (create_error ''ImportError'' PYTHON HIGH True ''No module named foo''
          log_one_import_error [] 1000000 World_init) \<noteq> None"
    by (simp add: create_error_def is_duplicate_error_def World_init_def Let_def)
  have h2: "\<exists>x\<in>set (errors (db world_one_queued)).
        error_type x = ''ImportError'' \<and>
        (\<forall>m. extract_module_name log_one_import_error = Some m \<longrightarrow> module_name' x = Some m) \<and>
        (status x = DETECTED \<or> status x = QUEUED \<or> status x = FIXING) \<and>
        11000000 - detected_at x < 60000000"
    by (simp add: world_one_queued_def World_init_def example_error_def extract_import_error)
  have e: "errors (db World_init) = []" by (simp add: World_init_def)
  note a = C6_duplicate_suppressed
      [where w = World_init and etp = "''ImportError''" and cat = PYTHON and sev = HIGH
         and fx = True and msg = "''No module named foo''" and raw = log_one_import_error
         and ctx = "[]" and ?ctx2.0 = "[]" and ?t1.0 = 1000000 and ?t2.0 = 11000000
         and now = 0]
  note b = C6_duplicate_suppressed
      [where w = world_one_queued and etp = "''ImportError''" and cat = PYTHON and sev = HIGH
         and fx = True and msg = "''No module named foo''" and raw = log_one_import_error
         and ctx = "[]" and ?ctx2.0 = "[]" and ?t1.0 = 0 and ?t2.0 = 0
         and now = 11000000]
  have hyp: "fst (create_error ''ImportError'' PYTHON HIGH True ''No module named foo''
          log_one_import_error [] 1000000 World_init) \<noteq> None \<and>
          (11000000::int) - 1000000 < 60000000"
    using h1 by simp
  note r = conjunct2 [OF conjunct2 [OF a, THEN mp, OF hyp]]
  have 1: "length (errors (db (snd (create_error ''ImportError'' PYTHON HIGH True
       ''No module named foo'' log_one_import_error [] 11000000
       (snd (create_error ''ImportError'' PYTHON HIGH True ''No module named foo''
               log_one_import_error [] 1000000 World_init)))))) = 1"
    using r unfolding e by simp
  from b h2 have 2: "create_error ''ImportError'' PYTHON HIGH True ''No module named foo''
       log_one_import_error [] 11000000 world_one_queued = (None, world_one_queued)"
    by blast
  show ?thesis using h1 h2 1 2 by simp
qed

subsection \<open>The attempts table\<close>













end
